theory Spec2Isabelle
  imports
    Complex_Main
    "HOL-Library.Sublist"
    "HOL-Library.Char_ord"
    "HOL-Library.List_Lexorder"
    "HOL-Library.Product_Lexorder"
    "HOL-Library.AList"
    "HOL-Library.Multiset"
begin

chapter \<open>Institutional flow analysis of GetDailyStock (stock\_workflow.py)\<close>

text \<open>
  The development embeds the second step of \<^verbatim>\<open>src/stock_workflow.py\<close>: the code
  normaliser, the conversion of share counts to lots, the per-day ranking, the history
  accumulation of \<^verbatim>\<open>process_shares_files\<close>, \<^verbatim>\<open>calculate_stock_statistics\<close>,
  \<^verbatim>\<open>analyze_new_entries_and_observables\<close> and \<^verbatim>\<open>aggregate_analysis\<close>. The reducer of
  the older workflow script in the same directory is embedded beside it for comparison.
  The definitions come first, the properties after them; each numbered claim of the
  specification has its own subsection.

  Conventions of the embedding.
  \<^item> A Python \<^verbatim>\<open>str\<close> is a \<^typ>\<open>string\<close> whose characters are the code points below 256;
    security codes and file dates are ASCII. Strings compare lexicographically by code
    point, as Python compares them.
  \<^item> A Python \<^verbatim>\<open>dict\<close> is an association list with \<^const>\<open>AList.update\<close> as item
    assignment (an existing key keeps its position, a new key goes to the end) and
    \<^const>\<open>map_of\<close> as lookup.
  \<^item> Python's unbounded integers are \<^typ>\<open>int\<close>. numpy's mean and standard deviation are
    taken over \<^typ>\<open>real\<close>.
  \<^item> A data frame is the list of its rows in file order.
\<close>

section \<open>Strings\<close>

text \<open>\<^verbatim>\<open>str.isspace\<close> on the code points below 256.\<close>

definition is_space :: "char \<Rightarrow> bool" where
  "is_space c = (let n = (of_char c :: nat) in (9 \<le> n \<and> n \<le> 13) \<or> (28 \<le> n \<and> n \<le> 32) \<or> n = 133 \<or> n = 160)"

text \<open>\<^verbatim>\<open>str.isdigit\<close> on one code point below 256: the ASCII digits and the superscripts
  one, two and three.\<close>

definition is_digit_char :: "char \<Rightarrow> bool" where
  "is_digit_char c = (let n = (of_char c :: nat) in (48 \<le> n \<and> n \<le> 57) \<or> n = 178 \<or> n = 179 \<or> n = 185)"

text \<open>\<^verbatim>\<open>s.strip()\<close>: leading and trailing whitespace removed.\<close>

definition strip :: "string \<Rightarrow> string" where
  "strip s = rev (dropWhile is_space (rev (dropWhile is_space s)))"

text \<open>\<^verbatim>\<open>s.replace(pat, '')\<close>: every occurrence of \<open>pat\<close> removed, scanning from the left
  without overlap. With an empty pattern Python inserts the (empty) replacement between
  the characters, which leaves \<open>s\<close> as it is.\<close>

function replace_del :: "string \<Rightarrow> string \<Rightarrow> string" where
  "replace_del pat [] = []"
| "replace_del pat (c # cs) =
     (if pat \<noteq> [] \<and> take (length pat) (c # cs) = pat
      then replace_del pat (drop (length pat) (c # cs))
      else c # replace_del pat cs)"
  by pat_completeness auto
termination
  by (relation "measure (\<lambda>(pat, s). length s)") auto

text \<open>\<^verbatim>\<open>s.isdigit()\<close>: non-empty and every character a digit.\<close>

definition isdigit :: "string \<Rightarrow> bool" where
  "isdigit s = (s \<noteq> [] \<and> list_all is_digit_char s)"

text \<open>\<^verbatim>\<open>s.zfill(w)\<close>: zeros on the left up to width \<open>w\<close>, after a leading sign if there
  is one.\<close>

definition zfill :: "nat \<Rightarrow> string \<Rightarrow> string" where
  "zfill w s =
     (case s of
        [] \<Rightarrow> replicate w CHR ''0''
      | c # cs \<Rightarrow>
          if c = CHR ''+'' \<or> c = CHR ''-''
          then c # replicate (w - length s) CHR ''0'' @ cs
          else replicate (w - length s) CHR ''0'' @ s)"

section \<open>Code normaliser\<close>

text \<open>
  \<^verbatim>\<open>normalize_stock_code(code)\<close> on a string argument (\<^verbatim>\<open>pd.isna\<close> is false on a
  string): the empty string stays empty; otherwise the code is stripped, the sequences
  \<^verbatim>\<open>="\<close>, \<^verbatim>\<open>"\<close> and \<^verbatim>\<open>'\<close> are removed in this order, and an all-digit result
  shorter than 4 is zero-filled to 4.
\<close>

definition normalize_stock_code :: "string \<Rightarrow> string" where
  "normalize_stock_code code =
     (if code = [] then []
      else
        let code_str = strip code;
            code_str = filter (\<lambda>c. c \<noteq> CHR 0x27)
                         (filter (\<lambda>c. c \<noteq> CHR 0x22)
                            (replace_del [CHR ''='', CHR 0x22] code_str))
        in if isdigit code_str \<and> length code_str < 4 then zfill 4 code_str else code_str)"

section \<open>Shares to lots\<close>

text \<open>Python's \<^verbatim>\<open>int(x)\<close> on the quotient of two integers: the quotient truncated toward
  zero.\<close>

definition trunc_div :: "int \<Rightarrow> int \<Rightarrow> int" where
  "trunc_div a b = sgn a * sgn b * (\<bar>a\<bar> div \<bar>b\<bar>)"


text \<open>
  The column conversion of \<^verbatim>\<open>process_shares_files\<close> and of
  \<^verbatim>\<open>analyze_new_entries_and_observables\<close>:
  \<^verbatim>\<open>(df[col] / 1000).fillna(0).astype(int)\<close>, where \<^verbatim>\<open>pd.to_numeric(errors='coerce')\<close>
  has turned an unreadable cell into NaN (\<open>None\<close>).
\<close>

definition lots_of_shares :: "int option \<Rightarrow> int" where
  "lots_of_shares v = (case v of None \<Rightarrow> 0 | Some n \<Rightarrow> trunc_div n 1000)"

section \<open>Daily records and the rank extractor\<close>

text \<open>
  One row of a daily institutional file as \<^verbatim>\<open>pd.read_csv\<close> delivers it: the code cell,
  the name cell and the cell of the column of net shares, which
  \<^verbatim>\<open>pd.to_numeric(..., errors='coerce')\<close> reads as a number or as NaN (\<open>None\<close>).
\<close>

record shares_row =
  raw_code :: string
  raw_name :: string
  raw_shares :: "int option"

text \<open>A daily file: its date (the file name without \<^verbatim>\<open>.csv\<close>) and its rows in file
  order. The files are taken to be readable tables that have the three columns.\<close>

record day_file =
  file_date :: string
  file_rows :: "shares_row list"

text \<open>A row of the data frame once the column of lots has been added.\<close>

record lots_row =
  r_code :: string
  r_name :: string
  r_lots :: int

text \<open>
  The head of the loop body of \<^verbatim>\<open>process_shares_files\<close>, repeated in
  \<^verbatim>\<open>analyze_new_entries_and_observables\<close>: the code column is normalised, the rows
  outside the allow-list are dropped (no filtering when the list is \<^verbatim>\<open>None\<close>), and the
  share counts become lots.
\<close>

definition prepare_rows :: "string set option \<Rightarrow> shares_row list \<Rightarrow> lots_row list" where
  "prepare_rows allowed_stock_codes rows =
     (let df = map (\<lambda>r. r\<lparr>raw_code := normalize_stock_code (raw_code r)\<rparr>) rows;
          df = (case allowed_stock_codes of
                  None \<Rightarrow> df
                | Some allowed \<Rightarrow> filter (\<lambda>r. raw_code r \<in> allowed) df)
      in map (\<lambda>r. \<lparr>r_code = raw_code r, r_name = raw_name r,
                     r_lots = lots_of_shares (raw_shares r)\<rparr>) df)"

text \<open>
  \<^verbatim>\<open>df.nlargest(n, col)\<close> and \<^verbatim>\<open>df.nsmallest(n, col)\<close> of pandas with the default
  \<^verbatim>\<open>keep='first'\<close>: the first \<open>n\<close> rows in descending (ascending) order of the column,
  rows with equal values taken in the order in which they occur in the frame; no row
  for \<open>n \<le> 0\<close>. \<^const>\<open>sort_key\<close> is a stable insertion sort.
\<close>

definition nlargest :: "int \<Rightarrow> ('a \<Rightarrow> int) \<Rightarrow> 'a list \<Rightarrow> 'a list" where
  "nlargest n col df = take (nat n) (sort_key (\<lambda>r. - col r) df)"

definition nsmallest :: "int \<Rightarrow> ('a \<Rightarrow> int) \<Rightarrow> 'a list \<Rightarrow> 'a list" where
  "nsmallest n col df = take (nat n) (sort_key col df)"

text \<open>The two rankings of a day:
  \<^verbatim>\<open>df[df[lots] > 0].nlargest(top_buy_count, lots)\<close> and
  \<^verbatim>\<open>df[df[lots] < 0].nsmallest(top_sell_count, lots)\<close>.\<close>

definition buy_top :: "int \<Rightarrow> lots_row list \<Rightarrow> lots_row list" where
  "buy_top top_buy_count df = nlargest top_buy_count r_lots (filter (\<lambda>r. r_lots r > 0) df)"

definition sell_top :: "int \<Rightarrow> lots_row list \<Rightarrow> lots_row list" where
  "sell_top top_sell_count df = nsmallest top_sell_count r_lots (filter (\<lambda>r. r_lots r < 0) df)"

section \<open>History accumulation (process\_shares\_files)\<close>

text \<open>\<^verbatim>\<open>is_allowed_stock\<close>: every code passes when there is no allow-list; otherwise the
  code is normalised once more and looked up.\<close>

definition is_allowed_stock :: "string \<Rightarrow> string set option \<Rightarrow> bool" where
  "is_allowed_stock stock_code allowed_stock_codes =
     (case allowed_stock_codes of
        None \<Rightarrow> True
      | Some allowed \<Rightarrow> normalize_stock_code stock_code \<in> allowed)"

text \<open>An entry of the top-20 trackers.\<close>

record tracker_item =
  t_code :: string
  t_name :: string
  t_date :: string
  t_lots :: int

text \<open>
  The part of the state of \<^verbatim>\<open>process_shares_files\<close> that the analysis reads. The frames
  kept for display (\<^verbatim>\<open>all_data\<close>, \<^verbatim>\<open>daily_buy_sell_data\<close>, \<^verbatim>\<open>etf_daily_data\<close>) and
  the counters are left out.
\<close>

record accumulator =
  buy_top20_tracker :: "tracker_item list"
  sell_top20_tracker :: "tracker_item list"
  daily_buy_stocks :: "(string \<times> string set) list"
  daily_sell_stocks :: "(string \<times> string set) list"
  daily_all_stocks :: "(string \<times> (string \<times> int) list) list"
  all_historical_data :: "(string \<times> (string \<times> int) list) list"

definition empty_accumulator :: accumulator where
  "empty_accumulator =
     \<lparr>buy_top20_tracker = [], sell_top20_tracker = [], daily_buy_stocks = [],
      daily_sell_stocks = [], daily_all_stocks = [], all_historical_data = []\<rparr>"

text \<open>
  One turn of the loop over \<^verbatim>\<open>df.iterrows()\<close>: the day's entry of the code is
  assigned (the last row of a code wins), and the pair of date and lots is appended to the
  history of the code. The pair carries the day's dictionary and the histories.
\<close>

definition record_row ::
  "string set option \<Rightarrow> string \<Rightarrow> lots_row \<Rightarrow>
   (string \<times> int) list \<times> (string \<times> (string \<times> int) list) list \<Rightarrow>
   (string \<times> int) list \<times> (string \<times> (string \<times> int) list) list" where
  "record_row allowed_stock_codes date row st =
     (let stock_code = normalize_stock_code (r_code row) in
      if is_allowed_stock stock_code allowed_stock_codes
      then
        let buy_sell_value = r_lots row;
            history = (case map_of (snd st) stock_code of None \<Rightarrow> [] | Some h \<Rightarrow> h)
        in (AList.update stock_code buy_sell_value (fst st),
            AList.update stock_code (history @ [(date, buy_sell_value)]) (snd st))
      else st)"

definition tracker_entry :: "string \<Rightarrow> lots_row \<Rightarrow> tracker_item" where
  "tracker_entry date row =
     \<lparr>t_code = normalize_stock_code (r_code row), t_name = r_name row, t_date = date,
      t_lots = r_lots row\<rparr>"

text \<open>The ranking of one of the five latest files: the day's top-20 sets and the
  trackers. A side without rows records the empty set.\<close>

definition rank_day :: "int \<Rightarrow> int \<Rightarrow> string \<Rightarrow> lots_row list \<Rightarrow> accumulator \<Rightarrow> accumulator" where
  "rank_day top_buy_count top_sell_count date df acc =
     (let acc =
        (if buy_top top_buy_count df \<noteq> []
         then
           let buy_top20 = nlargest 20 r_lots (filter (\<lambda>r. r_lots r > 0) df)
           in acc\<lparr>daily_buy_stocks :=
                     AList.update date (set (map r_code buy_top20)) (daily_buy_stocks acc),
                   buy_top20_tracker :=
                     buy_top20_tracker acc @ map (tracker_entry date) buy_top20\<rparr>
         else acc\<lparr>daily_buy_stocks := AList.update date {} (daily_buy_stocks acc)\<rparr>)
      in
        if sell_top top_sell_count df \<noteq> []
        then
          let sell_top20 = nsmallest 20 r_lots (filter (\<lambda>r. r_lots r < 0) df)
          in acc\<lparr>daily_sell_stocks :=
                    AList.update date (set (map r_code sell_top20)) (daily_sell_stocks acc),
                  sell_top20_tracker :=
                    sell_top20_tracker acc @ map (tracker_entry date) sell_top20\<rparr>
        else acc\<lparr>daily_sell_stocks := AList.update date {} (daily_sell_stocks acc)\<rparr>)"

text \<open>The body of the loop over \<^verbatim>\<open>latest_files\<close> for one file.\<close>

definition process_file ::
  "day_file list \<Rightarrow> string set option \<Rightarrow> int \<Rightarrow> int \<Rightarrow> day_file \<Rightarrow> accumulator \<Rightarrow> accumulator" where
  "process_file latest_files allowed_stock_codes top_buy_count top_sell_count file acc =
     (let df = prepare_rows allowed_stock_codes (file_rows file);
          date = file_date file;
          st = foldl (\<lambda>st row. record_row allowed_stock_codes date row st)
                 ([], all_historical_data acc) df;
          acc = acc\<lparr>daily_all_stocks := AList.update date (fst st) (daily_all_stocks acc),
                    all_historical_data := snd st\<rparr>
      in if file \<in> set (take 5 latest_files)
         then rank_day top_buy_count top_sell_count date df acc
         else acc)"

definition process_shares_files ::
  "day_file list \<Rightarrow> string set option \<Rightarrow> int \<Rightarrow> int \<Rightarrow> accumulator" where
  "process_shares_files latest_files allowed_stock_codes top_buy_count top_sell_count =
     foldl (\<lambda>acc file.
              process_file latest_files allowed_stock_codes top_buy_count top_sell_count file acc)
       empty_accumulator latest_files"

section \<open>Statistics engine (calculate\_stock\_statistics)\<close>

text \<open>\<^verbatim>\<open>sorted(xs, key=key, reverse=True)\<close>: descending by key, elements with equal keys
  in their original order.\<close>

definition sorted_desc :: "('a \<Rightarrow> 'k::linorder) \<Rightarrow> 'a list \<Rightarrow> 'a list" where
  "sorted_desc key xs = rev (sort_key key (rev xs))"

text \<open>\<^verbatim>\<open>np.mean\<close> and \<^verbatim>\<open>np.std\<close> (the population standard deviation, \<^verbatim>\<open>ddof=0\<close>).\<close>

definition np_mean :: "real list \<Rightarrow> real" where
  "np_mean xs = sum_list xs / real (length xs)"

definition np_std :: "real list \<Rightarrow> real" where
  "np_std xs = sqrt (sum_list (map (\<lambda>x. (x - np_mean xs)\<^sup>2) xs) / real (length xs))"

text \<open>The entry of one security in the result dictionary.\<close>

record stock_stat =
  st_mean :: real
  st_std :: real
  st_latest :: int
  st_z :: real
  st_anomaly :: bool

text \<open>The body of the loop of \<^verbatim>\<open>calculate_stock_statistics\<close> for one security:
  \<open>None\<close> when the security gets no entry.\<close>

definition stock_statistic :: "(string \<times> int) list \<Rightarrow> real \<Rightarrow> stock_stat option" where
  "stock_statistic date_values sigma_threshold =
     (if length date_values \<ge> 30
      then
        let sorted_values = sorted_desc fst date_values;
            latest_value = (case sorted_values of [] \<Rightarrow> 0 | v # _ \<Rightarrow> snd v);
            historical_values = map (\<lambda>v. real_of_int (snd v)) (take 60 (drop 1 sorted_values))
        in if length historical_values \<ge> 30
           then
             let mean = np_mean historical_values;
                 std = np_std historical_values;
                 z_score = (if std > 0 then \<bar>(real_of_int latest_value - mean) / std\<bar> else 0)
             in Some \<lparr>st_mean = mean, st_std = std, st_latest = latest_value, st_z = z_score,
                      st_anomaly = (z_score \<ge> sigma_threshold)\<rparr>
           else None
      else None)"

definition calculate_stock_statistics ::
  "(string \<times> (string \<times> int) list) list \<Rightarrow> real \<Rightarrow> (string \<times> stock_stat) list" where
  "calculate_stock_statistics all_historical sigma_threshold =
     List.map_filter
       (\<lambda>(stock_code, date_values).
          map_option (Pair stock_code) (stock_statistic date_values sigma_threshold))
       all_historical"

section \<open>Observable classifier (analyze\_new\_entries\_and\_observables)\<close>

text \<open>The parameter \<^verbatim>\<open>sigma_threshold\<close> of the source function is only printed and is not a
  parameter of the embedding; the latest file is given by its rows.\<close>

text \<open>The reasons attached to an observable security. The source joins their texts with
  \<^verbatim>\<open>+\<close>; the first carries the z-score it prints.\<close>

datatype reason = Anomalous real | PersistentBuy | PersistentSell

type_synonym observation = "reason list \<times> real \<times> real \<times> real"

record analysis =
  new_buy_stocks :: "string set"
  new_sell_stocks :: "string set"
  observable_buy_stocks :: "string \<rightharpoonup> observation"
  observable_sell_stocks :: "string \<rightharpoonup> observation"
  latest_date :: "string option"
  latest_buy_stocks_n :: "string set"
  latest_sell_stocks_n :: "string set"





section \<open>Aggregate reducer (aggregate\_analysis)\<close>

text \<open>\<^verbatim>\<open>s.split('-')\<close> and \<^verbatim>\<open>format_date_short\<close>: the third of exactly three parts, and
  the date itself otherwise.\<close>

fun split_on :: "char \<Rightarrow> string \<Rightarrow> string list" where
  "split_on sep [] = [[]]"
| "split_on sep (c # cs) =
     (if c = sep then [] # split_on sep cs
      else (case split_on sep cs of [] \<Rightarrow> [[c]] | p # ps \<Rightarrow> (c # p) # ps))"

definition format_date_short :: "string \<Rightarrow> string" where
  "format_date_short date_str =
     (let parts = split_on CHR ''-'' date_str in
      if length parts = 3 then parts ! 2 else date_str)"

text \<open>\<^verbatim>\<open>sep.join(parts)\<close>.\<close>

fun join :: "string \<Rightarrow> string list \<Rightarrow> string" where
  "join sep [] = []"
| "join sep [p] = p"
| "join sep (p # q # ps) = p @ sep @ join sep (q # ps)"

text \<open>\<^verbatim>\<open>get_stock_sector\<close>: the sector of the normalised code, the empty string when the
  map has none.\<close>

definition get_stock_sector :: "string \<Rightarrow> (string \<rightharpoonup> string) \<Rightarrow> string" where
  "get_stock_sector stock_code stock_sector_map =
     (case stock_sector_map (normalize_stock_code stock_code) of None \<Rightarrow> [] | Some s \<Rightarrow> s)"

text \<open>\<^verbatim>\<open>df.head(n)\<close>: the first \<open>n\<close> rows, and all but the last \<open>- n\<close> rows for a
  negative \<open>n\<close>.\<close>

definition head :: "int \<Rightarrow> 'a list \<Rightarrow> 'a list" where
  "head n df = (if 0 \<le> n then take (nat n) df else take (length df - nat (- n)) df)"

text \<open>
  A row of \<^verbatim>\<open>summary\<close>: the tracker entries grouped by code and name
  (\<^verbatim>\<open>groupby\<close> orders the groups by their key), the sum of their lots and their number.
\<close>

record summary_row =
  s_code :: string
  s_name :: string
  s_total :: int
  s_count :: nat

definition summarize :: "tracker_item list \<Rightarrow> summary_row list" where
  "summarize all_tracker =
     map (\<lambda>(c, n).
            let grp = filter (\<lambda>i. t_code i = c \<and> t_name i = n) all_tracker
            in \<lparr>s_code = c, s_name = n, s_total = sum_list (map t_lots grp),
                s_count = length grp\<rparr>)
       (sort (remdups (map (\<lambda>i. (t_code i, t_name i)) all_tracker)))"

text \<open>A row of a leaderboard: the summary row with the sector and the mark of a code
  that is in \<^verbatim>\<open>both_stocks_set\<close>.\<close>

record leader_row =
  l_code :: string
  l_name :: string
  l_total :: int
  l_count :: nat
  l_sector :: string
  l_both :: bool

definition leader ::
  "(string \<rightharpoonup> string) \<Rightarrow> string set \<Rightarrow> summary_row \<Rightarrow> leader_row" where
  "leader stock_sector_map both r =
     \<lparr>l_code = s_code r, l_name = s_name r, l_total = s_total r, l_count = s_count r,
      l_sector = get_stock_sector (s_code r) stock_sector_map, l_both = (s_code r \<in> both)\<rparr>"

text \<open>The loops that build \<^verbatim>\<open>buy_dates_by_stock\<close> and \<^verbatim>\<open>sell_dates_by_stock\<close>.\<close>

definition dates_by_stock :: "tracker_item list \<Rightarrow> (string \<times> string list) list" where
  "dates_by_stock tracker =
     foldl (\<lambda>d item.
              AList.update (t_code item)
                ((case map_of d (t_code item) of None \<Rightarrow> [] | Some ds \<Rightarrow> ds) @ [t_date item]) d)
       [] tracker"

datatype direction = Buy | Sell | Neutral

text \<open>A row of \<^verbatim>\<open>both_stocks_df\<close>.\<close>

record both_row =
  b_code :: string
  b_name :: string
  b_sector :: string
  b_buy_count :: nat
  b_buy_dates :: string
  b_buy_sum :: int
  b_sell_count :: nat
  b_sell_dates :: string
  b_sell_sum :: int
  b_net :: int
  b_date_status :: "(direction \<times> string) list"

definition both_detail ::
  "tracker_item list \<Rightarrow> (string \<times> string list) list \<Rightarrow> (string \<times> string list) list \<Rightarrow>
   (string \<rightharpoonup> string) \<Rightarrow> string list \<Rightarrow> string \<Rightarrow> both_row" where
  "both_detail all_tracker buy_dates_by_stock sell_dates_by_stock stock_sector_map
       all_available_dates stock_code =
     (let stock_all_data = filter (\<lambda>i. t_code i = stock_code) all_tracker;
          buy_dates = (case map_of buy_dates_by_stock stock_code of None \<Rightarrow> [] | Some ds \<Rightarrow> ds);
          sell_dates = (case map_of sell_dates_by_stock stock_code of None \<Rightarrow> [] | Some ds \<Rightarrow> ds)
      in \<lparr>b_code = stock_code,
          b_name = (case stock_all_data of [] \<Rightarrow> [] | i # _ \<Rightarrow> t_name i),
          b_sector = get_stock_sector stock_code stock_sector_map,
          b_buy_count = length buy_dates,
          b_buy_dates = join '', '' (map format_date_short (sort buy_dates)),
          b_buy_sum = sum_list (map t_lots (filter (\<lambda>i. t_lots i > 0) stock_all_data)),
          b_sell_count = length sell_dates,
          b_sell_dates = join '', '' (map format_date_short (sort sell_dates)),
          b_sell_sum = sum_list (map t_lots (filter (\<lambda>i. t_lots i < 0) stock_all_data)),
          b_net = sum_list (map t_lots stock_all_data),
          b_date_status =
            map (\<lambda>date.
                   (if date \<in> set buy_dates then Buy
                    else if date \<in> set sell_dates then Sell else Neutral,
                    format_date_short date))
              (take 5 all_available_dates)\<rparr>)"

text \<open>The four results of \<^verbatim>\<open>aggregate_analysis\<close>; \<open>None\<close> is Python's \<^verbatim>\<open>None\<close>.\<close>

record aggregate =
  buy_stocks :: "leader_row list option"
  sell_stocks :: "leader_row list option"
  both_stocks_set :: "string set"
  both_stocks_df :: "both_row list option"

text \<open>The only exception of the function: with neither a top-N nor a threshold, the
  comparison \<^verbatim>\<open>aggregate_threshold > 0\<close> of \<^verbatim>\<open>None\<close> with a number raises.\<close>

datatype py_error = TypeError

text \<open>
  \<^verbatim>\<open>aggregate_analysis\<close>. \<^verbatim>\<open>sort_values\<close> is modelled by the stable \<^const>\<open>sort_key\<close>; pandas
  does not fix the order of rows with equal sums, and the source iterates over
  \<^verbatim>\<open>both_stocks_set\<close> in the order of Python's set, for which the model takes the order of
  first occurrence in the buy tracker. No statement below depends on either order.
\<close>

definition aggregate_analysis ::
  "tracker_item list \<Rightarrow> tracker_item list \<Rightarrow> (string \<rightharpoonup> string) \<Rightarrow> int option \<Rightarrow>
   int option \<Rightarrow> py_error + aggregate" where
  "aggregate_analysis buy_tracker sell_tracker stock_sector_map aggregate_threshold show_top_n =
     (if buy_tracker = [] \<or> sell_tracker = []
      then Inr \<lparr>buy_stocks = None, sell_stocks = None, both_stocks_set = {},
                both_stocks_df = None\<rparr>
      else
        let all_tracker = buy_tracker @ sell_tracker;
            summary = summarize all_tracker;
            buy_summary = filter (\<lambda>r. s_total r > 0) summary;
            sell_summary = filter (\<lambda>r. s_total r < 0) summary;
            buy_dates_by_stock = dates_by_stock buy_tracker;
            sell_dates_by_stock = dates_by_stock sell_tracker;
            all_buy_stocks = set (map fst buy_dates_by_stock);
            all_sell_stocks = set (map fst sell_dates_by_stock);
            both = all_buy_stocks \<inter> all_sell_stocks
        in
          let selection =
                (case show_top_n of
                   Some n \<Rightarrow>
                     Some (head n (sort_key (\<lambda>r. - s_total r) buy_summary),
                           head n (sort_key s_total sell_summary))
                 | None \<Rightarrow>
                     (case aggregate_threshold of
                        None \<Rightarrow> None
                      | Some threshold \<Rightarrow>
                          Some (sort_key (\<lambda>r. - s_total r)
                                  (filter (\<lambda>r. s_total r \<ge> threshold) buy_summary),
                                sort_key s_total
                                  (filter (\<lambda>r. s_total r \<le> - threshold) sell_summary))))
          in
            case selection of
              None \<Rightarrow> Inl TypeError
            | Some (buy_sel, sell_sel) \<Rightarrow>
                let all_available_dates = rev (sort (remdups (map t_date all_tracker)));
                    both_list = filter (\<lambda>c. c \<in> all_sell_stocks) (map fst buy_dates_by_stock);
                    both_df =
                      (if both_list \<noteq> []
                       then Some (sort_key (\<lambda>r. - b_net r)
                                    (map (both_detail all_tracker buy_dates_by_stock
                                            sell_dates_by_stock stock_sector_map
                                            all_available_dates)
                                       both_list))
                       else None)
                in Inr \<lparr>buy_stocks = Some (map (leader stock_sector_map both) buy_sel),
                         sell_stocks = Some (map (leader stock_sector_map both) sell_sel),
                         both_stocks_set = both,
                         both_stocks_df = both_df\<rparr>)"

text \<open>The fields of \<^verbatim>\<open>setup_config\<close> that steer the analysis; they are the same for
  both markets.\<close>

datatype market = TSE | OTC

record config =
  cfg_sigma_threshold :: real
  cfg_aggregate_threshold :: "int option"
  cfg_show_top_n :: "int option"
  cfg_top_buy_count :: int
  cfg_top_sell_count :: int

definition setup_config :: "market \<Rightarrow> config" where
  "setup_config market_type =
     (case market_type of
        TSE \<Rightarrow> \<lparr>cfg_sigma_threshold = 2.5, cfg_aggregate_threshold = None, cfg_show_top_n = Some 100,
                cfg_top_buy_count = 100, cfg_top_sell_count = 50\<rparr>
      | OTC \<Rightarrow> \<lparr>cfg_sigma_threshold = 2.5, cfg_aggregate_threshold = None, cfg_show_top_n = Some 100,
                cfg_top_buy_count = 100, cfg_top_sell_count = 50\<rparr>)"

section \<open>The aggregate reducer of the older script\<close>

text \<open>
  The repository keeps an older script of the whole workflow beside
  \<^verbatim>\<open>stock_workflow.py\<close> (the second large file of \<^verbatim>\<open>src/\<close>). Its
  \<^verbatim>\<open>aggregate_analysis\<close> works on trackers that are dictionaries from a code to the dates
  on which the code was in the top 20, ranks the codes by the number of those dates, and
  takes the cross-listing set from the two resulting tables. It is embedded here for
  comparison. The sector label of a code without sector (the word for ``unknown'') is
  written in ASCII.
\<close>

record legacy_row =
  g_code :: string
  g_sector :: string
  g_count :: nat

definition legacy_table ::
  "(string \<times> string list) list \<Rightarrow> (string \<rightharpoonup> string) \<Rightarrow> int option \<Rightarrow> legacy_row list" where
  "legacy_table tracker stock_sector_map top_n =
     (let analysis =
            map (\<lambda>(stock_code, dates).
                   \<lparr>g_code = stock_code,
                    g_sector = (case stock_sector_map stock_code of
                                  None \<Rightarrow> ''unknown'' | Some s \<Rightarrow> s),
                    g_count = length dates\<rparr>) tracker
      in if analysis = [] then []
         else
           let ranked = sort_key (\<lambda>r. - int (g_count r)) analysis
           in (case top_n of
                 None \<Rightarrow> ranked
               | Some n \<Rightarrow> if n = 0 then ranked else head n ranked))"

record legacy_aggregate =
  lg_buy_stocks :: "legacy_row list"
  lg_sell_stocks :: "legacy_row list"
  lg_both_stocks_set :: "string set"

text \<open>The table of the cross-listed codes, which only repeats the counts of the two
  tables, is left out.\<close>

definition legacy_aggregate_analysis ::
  "(string \<times> string list) list \<Rightarrow> (string \<times> string list) list \<Rightarrow> (string \<rightharpoonup> string) \<Rightarrow>
   int option \<Rightarrow> legacy_aggregate" where
  "legacy_aggregate_analysis buy_tracker sell_tracker stock_sector_map top_n =
     (let buy = legacy_table buy_tracker stock_sector_map top_n;
          sell = legacy_table sell_tracker stock_sector_map top_n
      in \<lparr>lg_buy_stocks = buy, lg_sell_stocks = sell,
          lg_both_stocks_set =
            (if buy \<noteq> [] \<and> sell \<noteq> []
             then set (map g_code buy) \<inter> set (map g_code sell) else {})\<rparr>)"

section \<open>Notions used in the statements\<close>

text \<open>\<^verbatim>\<open>all_historical_data.get(stock_code, [])\<close>: the series of a security, empty when the
  dictionary has none.\<close>

definition history_of ::
  "(string \<times> (string \<times> int) list) list \<Rightarrow> string \<Rightarrow> (string \<times> int) list" where
  "history_of d stock_code = (case map_of d stock_code of None \<Rightarrow> [] | Some h \<Rightarrow> h)"

text \<open>The rows of a daily file that count for a security: the rows of the prepared frame
  whose code, normalised again as the loop does, is the security's and passes
  \<^verbatim>\<open>is_allowed_stock\<close>. Each gives one pair of the file's date and the row's lots.\<close>

definition file_entries :: "string set option \<Rightarrow> day_file \<Rightarrow> string \<Rightarrow> (string \<times> int) list" where
  "file_entries allowed_stock_codes file stock_code =
     map (\<lambda>row. (file_date file, r_lots row))
       (filter (\<lambda>row. normalize_stock_code (r_code row) = stock_code \<and>
                       is_allowed_stock (normalize_stock_code (r_code row)) allowed_stock_codes)
          (prepare_rows allowed_stock_codes (file_rows file)))"

text \<open>The day's dictionary of codes and lots that one file produces.\<close>

definition day_entries :: "string set option \<Rightarrow> day_file \<Rightarrow> (string \<times> int) list" where
  "day_entries allowed_stock_codes file =
     fst (foldl (\<lambda>st row. record_row allowed_stock_codes (file_date file) row st) ([], [])
            (prepare_rows allowed_stock_codes (file_rows file)))"

section \<open>Example data\<close>

text \<open>A history of 31 days, latest day first as \<^verbatim>\<open>process_shares_files\<close> builds it: thirty
  quiet days of 5 lots and a latest day of 900 lots.\<close>

definition quiet_then_spike :: "(string \<times> int) list" where
  "quiet_then_spike =
     (''2024-02-01'', 900) #
     map (\<lambda>d. (d, 5))
       [''2024-01-30'', ''2024-01-29'', ''2024-01-28'', ''2024-01-27'', ''2024-01-26'',
        ''2024-01-25'', ''2024-01-24'', ''2024-01-23'', ''2024-01-22'', ''2024-01-21'',
        ''2024-01-20'', ''2024-01-19'', ''2024-01-18'', ''2024-01-17'', ''2024-01-16'',
        ''2024-01-15'', ''2024-01-14'', ''2024-01-13'', ''2024-01-12'', ''2024-01-11'',
        ''2024-01-10'', ''2024-01-09'', ''2024-01-08'', ''2024-01-07'', ''2024-01-06'',
        ''2024-01-05'', ''2024-01-04'', ''2024-01-03'', ''2024-01-02'', ''2024-01-01'']"

text \<open>A daily file with one row: 5000 shares of 2330.\<close>

definition single_file :: day_file where
  "single_file =
     \<lparr>file_date = ''2024-01-03'',
      file_rows = [\<lparr>raw_code = ''2330'', raw_name = ''TSMC'', raw_shares = Some 5000\<rparr>]\<rparr>"






section \<open>Properties of the string functions\<close>

lemma digit_not_space: "is_digit_char c \<Longrightarrow> \<not> is_space c"
  by (auto simp: is_digit_char_def is_space_def Let_def)

lemma strip_id:
  assumes "s = [] \<or> (\<not> is_space (hd s) \<and> \<not> is_space (last s))"
  shows "strip s = s"
proof (cases s)
  case Nil
  then show ?thesis by (simp add: strip_def)
next
  case (Cons c cs)
  with assms have h: "\<not> is_space (hd s)" and l: "\<not> is_space (last s)" by auto
  from Cons h have 1: "dropWhile is_space s = s" by simp
  from Cons have ne: "s \<noteq> []" by simp
  from l ne have 2: "dropWhile is_space (rev s) = rev s"
    by (simp add: dropWhile_eq_self_iff hd_rev)
  show ?thesis by (simp add: strip_def 1 2)
qed

lemma replace_del_id: "CHR 0x22 \<notin> set s \<Longrightarrow> replace_del [CHR ''='', CHR 0x22] s = s"
proof (induction s)
  case Nil
  then show ?case by simp
next
  case (Cons c cs)
  then show ?case by (cases cs) auto
qed

lemma digit_not_sign: "is_digit_char c \<Longrightarrow> c \<noteq> CHR ''+'' \<and> c \<noteq> CHR ''-''"
  by (auto simp: is_digit_char_def Let_def)

lemma zfill_digits: "isdigit s \<Longrightarrow> zfill w s = replicate (w - length s) CHR ''0'' @ s"
  by (cases s) (auto simp: isdigit_def zfill_def dest: digit_not_sign)

lemma isdigit_strip: "isdigit s \<Longrightarrow> strip s = s"
proof (rule strip_id)
  assume d: "isdigit s"
  then have ne: "s \<noteq> []" by (simp add: isdigit_def)
  from d have "\<forall>c\<in>set s. is_digit_char c" by (simp add: isdigit_def list_all_iff)
  with ne have "is_digit_char (hd s)" "is_digit_char (last s)" by simp_all
  then show "s = [] \<or> (\<not> is_space (hd s) \<and> \<not> is_space (last s))"
    by (simp add: digit_not_space)
qed

lemma digit_not_quote: "is_digit_char c \<Longrightarrow> c \<noteq> CHR 0x22 \<and> c \<noteq> CHR 0x27"
  by (auto simp: is_digit_char_def Let_def)

lemma unquote_id:
  assumes "CHR 0x22 \<notin> set s" "CHR 0x27 \<notin> set s"
  shows "filter (\<lambda>c. c \<noteq> CHR 0x27) (filter (\<lambda>c. c \<noteq> CHR 0x22) (replace_del [CHR ''='', CHR 0x22] s)) = s"
proof -
  have "filter (\<lambda>c. c \<noteq> CHR 0x22) s = s" using assms(1) by (auto simp: filter_id_conv)
  moreover have "filter (\<lambda>c. c \<noteq> CHR 0x27) s = s" using assms(2) by (auto simp: filter_id_conv)
  ultimately show ?thesis using assms(1) by (simp add: replace_del_id del: filter_filter)
qed

lemma normalize_digits:
  assumes "isdigit s" "length s < 4"
  shows "normalize_stock_code s = replicate (4 - length s) CHR ''0'' @ s"
proof -
  from assms(1) have ne: "s \<noteq> []" and all: "\<forall>c\<in>set s. is_digit_char c"
    by (simp_all add: isdigit_def list_all_iff)
  from all have q: "CHR 0x22 \<notin> set s" "CHR 0x27 \<notin> set s"
    using digit_not_quote by blast+
  have "filter (\<lambda>c. c \<noteq> CHR 0x27) (filter (\<lambda>c. c \<noteq> CHR 0x22) (replace_del [CHR ''='', CHR 0x22] (strip s))) = s"
    using assms(1) q by (simp add: isdigit_strip unquote_id del: filter_filter)
  then show ?thesis
    using assms ne by (simp add: normalize_stock_code_def Let_def zfill_digits)
qed

lemma normalize_unquoted:
  "CHR 0x22 \<notin> set (normalize_stock_code s) \<and> CHR 0x27 \<notin> set (normalize_stock_code s)"
proof (cases "s = []")
  case True
  then show ?thesis by (simp add: normalize_stock_code_def)
next
  case False
  let ?c = "filter (\<lambda>c. c \<noteq> CHR 0x27) (filter (\<lambda>c. c \<noteq> CHR 0x22) (replace_del [CHR ''='', CHR 0x22] (strip s)))"
  have c: "CHR 0x22 \<notin> set ?c \<and> CHR 0x27 \<notin> set ?c" by auto
  show ?thesis
  proof (cases "isdigit ?c \<and> length ?c < 4")
    case True
    then have "normalize_stock_code s = replicate (4 - length ?c) CHR ''0'' @ ?c"
      using False by (simp add: normalize_stock_code_def Let_def zfill_digits)
    then show ?thesis using c by auto
  next
    case F: False
    then have "normalize_stock_code s = ?c"
      using False by (auto simp add: normalize_stock_code_def Let_def)
    then show ?thesis using c by simp
  qed
qed

lemma normalize_not_short_digits:
  "\<not> (isdigit (normalize_stock_code s) \<and> length (normalize_stock_code s) < 4)"
proof (cases "s = []")
  case True
  then show ?thesis by (simp add: normalize_stock_code_def isdigit_def)
next
  case False
  let ?c = "filter (\<lambda>c. c \<noteq> CHR 0x27) (filter (\<lambda>c. c \<noteq> CHR 0x22) (replace_del [CHR ''='', CHR 0x22] (strip s)))"
  show ?thesis
  proof (cases "isdigit ?c \<and> length ?c < 4")
    case True
    then have "normalize_stock_code s = replicate (4 - length ?c) CHR ''0'' @ ?c"
      using False by (simp add: normalize_stock_code_def Let_def zfill_digits)
    then have "length (normalize_stock_code s) = 4" using True by simp
    then show ?thesis by simp
  next
    case F: False
    then have "normalize_stock_code s = ?c"
      using False by (auto simp add: normalize_stock_code_def Let_def)
    then show ?thesis using F by simp
  qed
qed

lemma normalize_fixed_if:
  assumes "strip (normalize_stock_code s) = normalize_stock_code s"
  shows "normalize_stock_code (normalize_stock_code s) = normalize_stock_code s"
proof -
  let ?r = "normalize_stock_code s"
  have "filter (\<lambda>c. c \<noteq> CHR 0x27) (filter (\<lambda>c. c \<noteq> CHR 0x22) (replace_del [CHR ''='', CHR 0x22] (strip ?r))) = ?r"
    using normalize_unquoted[of s] assms by (simp add: unquote_id del: filter_filter)
  then show ?thesis
    using normalize_not_short_digits[of s]
    by (subst normalize_stock_code_def) (auto simp: Let_def)
qed

lemma length_replace_del: "length (replace_del pat s) \<le> length s"
proof (induction pat s rule: replace_del.induct)
  case (1 pat)
  then show ?case by simp
next
  case (2 pat c cs)
  then show ?case by (auto simp: le_SucI) 
qed

lemma length_dropWhile_eq: "length (dropWhile P xs) = length xs \<Longrightarrow> dropWhile P xs = xs"
  by (metis append_self_conv2 length_0_conv length_append add_cancel_right_left takeWhile_dropWhile_id add.commute)

lemma length_strip_le: "length (strip s) \<le> length s"
proof -
  have "length (strip s) \<le> length (dropWhile is_space s)"
    using length_dropWhile_le[of is_space "rev (dropWhile is_space s)"] by (simp add: strip_def)
  also have "\<dots> \<le> length s" by (rule length_dropWhile_le)
  finally show ?thesis .
qed

lemma length_strip_eq: 
  assumes "length (strip s) = length s" shows "strip s = s"
proof -
  have a: "length (strip s) \<le> length (dropWhile is_space s)"
    using length_dropWhile_le[of is_space "rev (dropWhile is_space s)"] by (simp add: strip_def)
  have b: "length (dropWhile is_space s) \<le> length s" by (rule length_dropWhile_le)
  from a b assms have e1: "length (dropWhile is_space s) = length s" by simp
  then have d1: "dropWhile is_space s = s" by (rule length_dropWhile_eq)
  from assms have "length (dropWhile is_space (rev s)) = length (rev s)"
    by (simp add: strip_def d1)
  then have "dropWhile is_space (rev s) = rev s" by (rule length_dropWhile_eq)
  then show ?thesis by (simp add: strip_def d1)
qed

lemma normalize_fixed_only_if:
  assumes "normalize_stock_code r = r"
  shows "strip r = r"
proof (cases "r = []")
  case True
  then show ?thesis by (simp add: strip_def)
next
  case False
  let ?c = "filter (\<lambda>c. c \<noteq> CHR 0x27) (filter (\<lambda>c. c \<noteq> CHR 0x22) (replace_del [CHR ''='', CHR 0x22] (strip r)))"
  show ?thesis
  proof (cases "isdigit ?c \<and> length ?c < 4")
    case True
    then have "normalize_stock_code r = replicate (4 - length ?c) CHR ''0'' @ ?c"
      using False by (simp add: normalize_stock_code_def Let_def zfill_digits)
    with assms have r: "r = replicate (4 - length ?c) CHR ''0'' @ ?c" by simp
    from True have "\<forall>c\<in>set ?c. is_digit_char c" by (simp add: isdigit_def list_all_iff)
    moreover have "is_digit_char CHR ''0''" by (simp add: is_digit_char_def)
    ultimately have "\<forall>c\<in>set (replicate (4 - length ?c) CHR ''0'' @ ?c). is_digit_char c"
      by auto
    with r have "\<forall>c\<in>set r. is_digit_char c" by simp
    with False have "isdigit r" by (simp add: isdigit_def list_all_iff)
    then show ?thesis by (rule isdigit_strip)
  next
    case F: False
    then have "normalize_stock_code r = ?c"
      using False by (auto simp add: normalize_stock_code_def Let_def)
    with assms have r: "?c = r" by simp
    have "length ?c \<le> length (replace_del [CHR ''='', CHR 0x22] (strip r))"
      by (meson le_trans length_filter_le)
    also have "\<dots> \<le> length (strip r)" by (rule length_replace_del)
    finally have "length r \<le> length (strip r)" using r by simp
    with length_strip_le[of r] have "length (strip r) = length r" by simp
    then show ?thesis by (rule length_strip_eq)
  qed
qed

subsection \<open>C9: zero padding and the fixed points of the normaliser\<close>

text \<open>
  C9 (as amended). For every string \<open>s\<close> that \<^verbatim>\<open>isdigit\<close> accepts and that is shorter
  than 4, \<open>normalize_stock_code s\<close> has length exactly 4 and is \<open>s\<close> padded with \<open>0\<close> on
  the left. For every string \<open>s\<close>, normalising a second time changes nothing exactly when
  \<open>normalize_stock_code s\<close> has no leading or trailing whitespace: the function strips
  whitespace before it removes the quote characters, so whitespace that stood inside the
  quotes survives the first pass and is stripped by the second.
\<close>

theorem normalize_stock_code_padding_and_fixpoint:
  "(isdigit s \<and> length s < 4 \<longrightarrow>
      length (normalize_stock_code s) = 4 \<and>
      normalize_stock_code s = replicate (4 - length s) CHR ''0'' @ s) \<and>
   (normalize_stock_code (normalize_stock_code s) = normalize_stock_code s \<longleftrightarrow>
      strip (normalize_stock_code s) = normalize_stock_code s)"
proof (intro conjI impI)
  assume a: "isdigit s \<and> length s < 4"
  then show "normalize_stock_code s = replicate (4 - length s) CHR ''0'' @ s"
    by (simp add: normalize_digits)
  with a show "length (normalize_stock_code s) = 4" by simp
next
  show "normalize_stock_code (normalize_stock_code s) = normalize_stock_code s \<longleftrightarrow>
      strip (normalize_stock_code s) = normalize_stock_code s"
    using normalize_fixed_if normalize_fixed_only_if by blast
qed

theorem normalize_stock_code_padding_and_fixpoint_witness:
  "isdigit ''56'' \<and> length ''56'' < 4 \<and> normalize_stock_code ''56'' = ''0056'' \<and>
   length (normalize_stock_code ''56'') = 4"
  using normalize_stock_code_padding_and_fixpoint [of "''56''"]
  by (simp add: isdigit_def is_digit_char_def eval_nat_numeral)

text \<open>
  C9 as stated fails: the normaliser is not idempotent. The three characters
  \<^verbatim>\<open>' 1\<close> (a quote, a space, a digit) normalise to \<^verbatim>\<open> 1\<close> (the quote goes, the space
  stays, and a string with a space is not all digits), and \<^verbatim>\<open> 1\<close> normalises to
  \<^verbatim>\<open>0001\<close>.
\<close>

theorem normalize_stock_code_not_idempotent:
  "normalize_stock_code [CHR 0x27, CHR '' '', CHR ''1''] = '' 1'' \<and>
   normalize_stock_code (normalize_stock_code [CHR 0x27, CHR '' '', CHR ''1'']) = ''0001''"
  by (simp add: normalize_stock_code_def strip_def is_space_def isdigit_def is_digit_char_def
      zfill_def Let_def eval_nat_numeral)

section \<open>Properties of the conversion to lots\<close>


subsection \<open>C3: lots are the quotient by 1000 truncated toward zero\<close>




section \<open>Properties of the aggregate reducer\<close>

lemma dates_by_stock_keys_aux:
  "fst ` set (foldl (\<lambda>d item. AList.update (t_code item)
                ((case map_of d (t_code item) of None \<Rightarrow> [] | Some ds \<Rightarrow> ds) @ [t_date item]) d) d0 tr)
   = fst ` set d0 \<union> t_code ` set tr"
  by (induction tr arbitrary: d0) (auto simp: dom_update)

lemma dates_by_stock_keys: "set (map fst (dates_by_stock tr)) = t_code ` set tr"
  using dates_by_stock_keys_aux[of "[]" tr] by (simp add: dates_by_stock_def)

lemma b_code_both_detail: "b_code (both_detail a b s m d c) = c"
  by (simp add: both_detail_def Let_def)

subsection \<open>C10: an empty tracker empties the whole result\<close>

text \<open>
  C10. If the buy top-20 tracker or the sell top-20 tracker is empty, \<^verbatim>\<open>aggregate_analysis\<close>
  returns no buy leaderboard, no sell leaderboard, the empty cross-listing set and no
  cross-listing table, whatever the other tracker holds.
\<close>

theorem aggregate_analysis_empty_tracker:
  "buy_tracker = [] \<or> sell_tracker = [] \<Longrightarrow>
   aggregate_analysis buy_tracker sell_tracker stock_sector_map threshold top_n =
     Inr \<lparr>buy_stocks = None, sell_stocks = None, both_stocks_set = {}, both_stocks_df = None\<rparr>"
  by (simp add: aggregate_analysis_def)

theorem aggregate_analysis_empty_tracker_witness:
  "aggregate_analysis []
     [\<lparr>t_code = ''2317'', t_name = ''HonHai'', t_date = ''2024-01-03'', t_lots = - 200\<rparr>]
     Map.empty (Some 10000) None =
   Inr \<lparr>buy_stocks = None, sell_stocks = None, both_stocks_set = {}, both_stocks_df = None\<rparr>"
  using aggregate_analysis_empty_tracker
    [of "[]" "[\<lparr>t_code = ''2317'', t_name = ''HonHai'', t_date = ''2024-01-03'', t_lots = - 200\<rparr>]"
        Map.empty "Some 10000" None]
  by simp

subsection \<open>C1: the cross-listing set is the intersection of the trackers' codes\<close>

text \<open>
  C1 (as amended). For every run of \<^verbatim>\<open>aggregate_analysis\<close> that returns, the set of
  cross-listed securities is the intersection of the codes of the buy top-20 tracker and
  of the sell top-20 tracker (the inputs, before any summing or selection): a code is
  cross-listed if and only if it has an entry in both trackers. The cross-listing table
  exists exactly when that set is not empty, and its rows carry exactly the codes of the
  set.
\<close>

theorem both_stocks_set_is_tracker_intersection:
  assumes "aggregate_analysis buy_tracker sell_tracker stock_sector_map threshold top_n = Inr r"
  shows "both_stocks_set r = t_code ` set buy_tracker \<inter> t_code ` set sell_tracker \<and>
         (case both_stocks_df r of
            None \<Rightarrow> both_stocks_set r = {}
          | Some rows \<Rightarrow> both_stocks_set r \<noteq> {} \<and> set (map b_code rows) = both_stocks_set r)"
proof (cases "buy_tracker = [] \<or> sell_tracker = []")
  case True
  with assms have "r = \<lparr>buy_stocks = None, sell_stocks = None, both_stocks_set = {}, both_stocks_df = None\<rparr>"
    by (simp add: aggregate_analysis_def)
  with True show ?thesis by auto
next
  case False
  let ?both = "t_code ` set buy_tracker \<inter> t_code ` set sell_tracker"
  let ?bl = "filter (\<lambda>c. c \<in> set (map fst (dates_by_stock sell_tracker)))
               (map fst (dates_by_stock buy_tracker))"
  let ?rows = "sort_key (\<lambda>r. - b_net r)
                 (map (both_detail (buy_tracker @ sell_tracker) (dates_by_stock buy_tracker)
                         (dates_by_stock sell_tracker) stock_sector_map
                         (rev (sort (remdups (map t_date (buy_tracker @ sell_tracker))))))
                    ?bl)"
  have bl: "set ?bl = ?both"
    using dates_by_stock_keys[of buy_tracker] dates_by_stock_keys[of sell_tracker] by auto
  from assms False obtain bs ss where
    r: "r = \<lparr>buy_stocks = bs, sell_stocks = ss,
             both_stocks_set = set (map fst (dates_by_stock buy_tracker)) \<inter>
                               set (map fst (dates_by_stock sell_tracker)),
             both_stocks_df = (if ?bl \<noteq> [] then Some ?rows else None)\<rparr>"
    by (auto simp: aggregate_analysis_def Let_def split: option.splits prod.splits)
  have s: "both_stocks_set r = ?both"
    using r dates_by_stock_keys[of buy_tracker] dates_by_stock_keys[of sell_tracker] by simp
  show ?thesis
  proof (cases "?bl = []")
    case True
    with bl have "?both = {}" by (metis set_empty2)
    with True r s show ?thesis by simp
  next
    case F: False
    with bl have ne: "?both \<noteq> {}" by (metis set_empty)
    have "set (map b_code ?rows) = set ?bl"
      by (simp add: image_image b_code_both_detail del: set_filter)
    with F r s ne bl show ?thesis by (simp del: set_filter set_map)
  qed
qed

theorem both_stocks_set_is_tracker_intersection_witness:
  "aggregate_analysis
     [\<lparr>t_code = ''2330'', t_name = ''TSMC'', t_date = ''2024-01-03'', t_lots = 100\<rparr>,
      \<lparr>t_code = ''2317'', t_name = ''HonHai'', t_date = ''2024-01-03'', t_lots = 50\<rparr>]
     [\<lparr>t_code = ''2330'', t_name = ''TSMC'', t_date = ''2024-01-02'', t_lots = - 40\<rparr>,
      \<lparr>t_code = ''2454'', t_name = ''MediaTek'', t_date = ''2024-01-02'', t_lots = - 70\<rparr>]
     Map.empty (Some 50) None =
   Inr \<lparr>buy_stocks =
          Some [\<lparr>l_code = ''2330'', l_name = ''TSMC'', l_total = 60, l_count = 2,
                  l_sector = [], l_both = True\<rparr>,
                \<lparr>l_code = ''2317'', l_name = ''HonHai'', l_total = 50, l_count = 1,
                  l_sector = [], l_both = False\<rparr>],
         sell_stocks =
          Some [\<lparr>l_code = ''2454'', l_name = ''MediaTek'', l_total = - 70, l_count = 1,
                  l_sector = [], l_both = False\<rparr>],
         both_stocks_set = {''2330''},
         both_stocks_df =
          Some [\<lparr>b_code = ''2330'', b_name = ''TSMC'', b_sector = [], b_buy_count = 1,
                  b_buy_dates = ''03'', b_buy_sum = 100, b_sell_count = 1,
                  b_sell_dates = ''02'', b_sell_sum = - 40, b_net = 60,
                  b_date_status = [(Buy, ''03''), (Sell, ''02'')]\<rparr>]\<rparr> \<and>
   {''2330''} =
     t_code ` set [\<lparr>t_code = ''2330'', t_name = ''TSMC'', t_date = ''2024-01-03'', t_lots = 100\<rparr>,
                   \<lparr>t_code = ''2317'', t_name = ''HonHai'', t_date = ''2024-01-03'', t_lots = 50\<rparr>] \<inter>
     t_code ` set [\<lparr>t_code = ''2330'', t_name = ''TSMC'', t_date = ''2024-01-02'', t_lots = - 40\<rparr>,
                   \<lparr>t_code = ''2454'', t_name = ''MediaTek'', t_date = ''2024-01-02'', t_lots = - 70\<rparr>]"
  (is "?run = Inr ?r \<and> _")
proof -
  have run: "?run = Inr ?r" by code_simp
  from both_stocks_set_is_tracker_intersection [OF run] run show ?thesis by simp
qed

text \<open>
  C1 as stated fails: the leaderboards hold the codes by the sign of their net sum, so a
  code that was bought on one day and sold on another is in one leaderboard only. Here
  code 2330 has net sum \<open>60\<close>: it is in the buy leaderboard, the sell leaderboard is empty,
  the intersection of the two leaderboards is empty, and 2330 is cross-listed.
\<close>

theorem both_stocks_set_not_leaderboard_intersection:
  "aggregate_analysis
     [\<lparr>t_code = ''2330'', t_name = ''TSMC'', t_date = ''2024-01-03'', t_lots = 100\<rparr>]
     [\<lparr>t_code = ''2330'', t_name = ''TSMC'', t_date = ''2024-01-02'', t_lots = - 40\<rparr>]
     Map.empty None (Some 100) =
   Inr \<lparr>buy_stocks =
          Some [\<lparr>l_code = ''2330'', l_name = ''TSMC'', l_total = 60, l_count = 2,
                  l_sector = [], l_both = True\<rparr>],
         sell_stocks = Some [],
         both_stocks_set = {''2330''},
         both_stocks_df =
          Some [\<lparr>b_code = ''2330'', b_name = ''TSMC'', b_sector = [], b_buy_count = 1,
                  b_buy_dates = ''03'', b_buy_sum = 100, b_sell_count = 1,
                  b_sell_dates = ''02'', b_sell_sum = - 40, b_net = 60,
                  b_date_status = [(Buy, ''03''), (Sell, ''02'')]\<rparr>]\<rparr>"
  by code_simp

text \<open>
  In the older script the cross-listing set is taken from the two resulting tables, so
  there it is their intersection; its tables rank by number of appearances and hold a
  code of both trackers on both sides.
\<close>

lemma legacy_both_is_table_intersection:
  "lg_both_stocks_set (legacy_aggregate_analysis buy_tracker sell_tracker stock_sector_map top_n) =
     set (map g_code (lg_buy_stocks
            (legacy_aggregate_analysis buy_tracker sell_tracker stock_sector_map top_n))) \<inter>
     set (map g_code (lg_sell_stocks
            (legacy_aggregate_analysis buy_tracker sell_tracker stock_sector_map top_n)))"
  by (auto simp: legacy_aggregate_analysis_def Let_def)

subsection \<open>C8: a configured top-N takes precedence over the threshold\<close>

text \<open>
  C8 (as amended). When a top-N is configured, \<^verbatim>\<open>aggregate_analysis\<close> selects by top-N and
  ignores the threshold, whether one is configured or not: the result is the same for
  every threshold, and it is never an error. The run is not rejected.
\<close>

theorem top_n_overrides_threshold:
  "aggregate_analysis buy_tracker sell_tracker stock_sector_map threshold (Some n) =
   aggregate_analysis buy_tracker sell_tracker stock_sector_map threshold' (Some n) \<and>
   aggregate_analysis buy_tracker sell_tracker stock_sector_map threshold (Some n) \<noteq> Inl e"
  by (simp add: aggregate_analysis_def Let_def)

text \<open>
  C8 as stated fails: with the threshold \<open>10000\<close> and the top-N \<open>1\<close> both configured the
  function returns leaderboards, and they hold sums (\<open>100\<close> and \<open>- 200\<close>) that the
  threshold would have excluded.
\<close>

theorem conflicting_selection_modes_not_rejected:
  "aggregate_analysis
     [\<lparr>t_code = ''2330'', t_name = ''TSMC'', t_date = ''2024-01-03'', t_lots = 100\<rparr>]
     [\<lparr>t_code = ''2317'', t_name = ''HonHai'', t_date = ''2024-01-03'', t_lots = - 200\<rparr>]
     Map.empty (Some 10000) (Some 1) =
   Inr \<lparr>buy_stocks =
          Some [\<lparr>l_code = ''2330'', l_name = ''TSMC'', l_total = 100, l_count = 1,
                  l_sector = [], l_both = False\<rparr>],
         sell_stocks =
          Some [\<lparr>l_code = ''2317'', l_name = ''HonHai'', l_total = - 200, l_count = 1,
                  l_sector = [], l_both = False\<rparr>],
         both_stocks_set = {}, both_stocks_df = None\<rparr>"
  by code_simp

text \<open>The shipped configuration of either market sets the top-N and no threshold, so
  \<^verbatim>\<open>run_step2_analysis\<close> selects by top-N.\<close>

lemma setup_config_selection:
  "cfg_show_top_n (setup_config market_type) = Some 100 \<and>
   cfg_aggregate_threshold (setup_config market_type) = None"
  by (cases market_type) (simp_all add: setup_config_def)

section \<open>Properties of the rank extractor\<close>








subsection \<open>C4: the rankings are sorted by volume, ties in input order\<close>



section \<open>Properties of the statistics engine\<close>

lemma sorted_desc_mset: "mset (sorted_desc key xs) = mset xs"
  by (simp add: sorted_desc_def)

lemma sorted_desc_descending: "sorted (rev (map key (sorted_desc key xs)))"
  by (simp add: sorted_desc_def rev_map)

lemma sorted_desc_length: "length (sorted_desc key xs) = length xs"
  by (simp add: sorted_desc_def)

lemma stock_statistic_short:
  "length date_values < 31 \<Longrightarrow> stock_statistic date_values sigma = None"
  by (auto simp: stock_statistic_def Let_def sorted_desc_length)

lemma stock_statistic_long:
  assumes "31 \<le> length date_values"
  shows "stock_statistic date_values sigma =
     (let srt = sorted_desc fst date_values;
          basis = map (\<lambda>v. real_of_int (snd v)) (take 60 (tl srt));
          z = (if np_std basis > 0 then \<bar>(real_of_int (snd (hd srt)) - np_mean basis) / np_std basis\<bar> else 0)
      in Some \<lparr>st_mean = np_mean basis, st_std = np_std basis, st_latest = snd (hd srt),
               st_z = z, st_anomaly = (z \<ge> sigma)\<rparr>)"
proof -
  let ?srt = "sorted_desc fst date_values"
  from assms have len: "length ?srt \<ge> 31" by (simp add: sorted_desc_length)
  then obtain v vs where srt: "?srt = v # vs" by (cases ?srt) auto
  with len have "length vs \<ge> 30" by simp
  with srt assms show ?thesis
    by (simp add: stock_statistic_def Let_def)
qed

lemma calculate_absent:
  "stock_code \<notin> fst ` set hist \<Longrightarrow> map_of (calculate_stock_statistics hist sigma) stock_code = None"
  by (induction hist)
     (auto simp: calculate_stock_statistics_def map_filter_simps split: option.splits)

lemma map_of_calculate:
  "distinct (map fst hist) \<Longrightarrow>
   map_of (calculate_stock_statistics hist sigma) stock_code =
     (case map_of hist stock_code of None \<Rightarrow> None | Some dv \<Rightarrow> stock_statistic dv sigma)"
proof (induction hist)
  case Nil
  then show ?case by (simp add: calculate_stock_statistics_def map_filter_simps)
next
  case (Cons p hist)
  obtain c dv where p: "p = (c, dv)" by (cases p)
  from Cons.prems p have notin: "c \<notin> fst ` set hist" and d: "distinct (map fst hist)" by auto
  have step: "calculate_stock_statistics ((c, dv) # hist) sigma =
      (case stock_statistic dv sigma of
         None \<Rightarrow> calculate_stock_statistics hist sigma
       | Some st \<Rightarrow> (c, st) # calculate_stock_statistics hist sigma)"
    by (simp add: calculate_stock_statistics_def map_filter_simps split: option.splits)
  show ?case
  proof (cases "stock_code = c")
    case True
    with notin show ?thesis
      by (simp add: step p calculate_absent split: option.splits)
  next
    case False
    with Cons.IH[OF d] show ?thesis
      by (simp add: step p split: option.splits)
  qed
qed


text \<open>The standard deviation of a constant series is exactly 0.\<close>

lemma np_std_constant: "np_std (replicate n c) = 0"
proof (cases "n = 0")
  case True
  then show ?thesis by (simp add: np_std_def)
next
  case False
  then have "np_mean (replicate n c) = c" by (simp add: np_mean_def sum_list_replicate)
  then have "map (\<lambda>x. (x - np_mean (replicate n c))\<^sup>2) (replicate n c) = replicate n 0"
    by simp
  then show ?thesis by (simp add: np_std_def sum_list_replicate)
qed

lemma quiet_then_spike_sorted: "sorted_desc fst quiet_then_spike = quiet_then_spike"
  by (simp add: sorted_desc_def quiet_then_spike_def)

lemma quiet_then_spike_length: "length quiet_then_spike = 31"
  by (simp add: quiet_then_spike_def)

lemma quiet_then_spike_statistic:
  "stock_statistic quiet_then_spike sigma =
     Some \<lparr>st_mean = 5, st_std = 0, st_latest = 900, st_z = 0, st_anomaly = (0 \<ge> sigma)\<rparr>"
  by (simp add: stock_statistic_long quiet_then_spike_length Let_def quiet_then_spike_sorted)
     (simp add: quiet_then_spike_def np_std_def np_mean_def)

subsection \<open>C5: the latest value, the trailing window and short histories\<close>

text \<open>
  C5. For every security of the history dictionary: with fewer than 30 entries after the
  latest one (fewer than 31 in all) the security has no entry in the statistics, and
  nothing is raised (the function is total). Otherwise it has an entry, and there is an
  arrangement of its history in descending order of date such that the latest value is the
  value of the first entry and the mean and the standard deviation are those of the values
  of the next up-to-60 entries, the first excluded.
\<close>

theorem statistics_window:
  assumes "distinct (map fst hist)" and "map_of hist stock_code = Some date_values"
  shows "(length date_values < 31 \<longrightarrow>
            map_of (calculate_stock_statistics hist sigma) stock_code = None) \<and>
         (31 \<le> length date_values \<longrightarrow>
            (\<exists>st srt. map_of (calculate_stock_statistics hist sigma) stock_code = Some st \<and>
               mset srt = mset date_values \<and> sorted (rev (map fst srt)) \<and>
               st_latest st = snd (hd srt) \<and>
               length (take 60 (tl srt)) = min 60 (length date_values - 1) \<and>
               st_mean st = np_mean (map (\<lambda>v. real_of_int (snd v)) (take 60 (tl srt))) \<and>
               st_std st = np_std (map (\<lambda>v. real_of_int (snd v)) (take 60 (tl srt)))))"
proof (intro conjI impI)
  assume "length date_values < 31"
  then show "map_of (calculate_stock_statistics hist sigma) stock_code = None"
    using assms by (simp add: map_of_calculate stock_statistic_short)
next
  assume long: "31 \<le> length date_values"
  let ?srt = "sorted_desc fst date_values"
  let ?basis = "map (\<lambda>v. real_of_int (snd v)) (take 60 (tl ?srt))"
  let ?z = "if np_std ?basis > 0 then \<bar>(real_of_int (snd (hd ?srt)) - np_mean ?basis) / np_std ?basis\<bar> else 0"
  let ?st = "\<lparr>st_mean = np_mean ?basis, st_std = np_std ?basis, st_latest = snd (hd ?srt),
               st_z = ?z, st_anomaly = (?z \<ge> sigma)\<rparr>"
  have "map_of (calculate_stock_statistics hist sigma) stock_code = Some ?st"
    using assms long by (simp add: map_of_calculate stock_statistic_long Let_def)
  moreover have "mset ?srt = mset date_values" by (rule sorted_desc_mset)
  moreover have "sorted (rev (map fst ?srt))" by (rule sorted_desc_descending)
  moreover have "length (take 60 (tl ?srt)) = min 60 (length date_values - 1)"
    by (simp add: sorted_desc_length min.commute)
  ultimately show "\<exists>st srt. map_of (calculate_stock_statistics hist sigma) stock_code = Some st \<and>
               mset srt = mset date_values \<and> sorted (rev (map fst srt)) \<and>
               st_latest st = snd (hd srt) \<and>
               length (take 60 (tl srt)) = min 60 (length date_values - 1) \<and>
               st_mean st = np_mean (map (\<lambda>v. real_of_int (snd v)) (take 60 (tl srt))) \<and>
               st_std st = np_std (map (\<lambda>v. real_of_int (snd v)) (take 60 (tl srt)))"
    by (intro exI[of _ ?st] exI[of _ ?srt]) simp
qed

theorem statistics_window_witness:
  "map_of (calculate_stock_statistics
             [(''2330'', quiet_then_spike), (''2317'', [(''2024-02-01'', 3)])] 2.5) ''2330'' \<noteq> None \<and>
   map_of (calculate_stock_statistics
             [(''2330'', quiet_then_spike), (''2317'', [(''2024-02-01'', 3)])] 2.5) ''2317'' = None"
  using statistics_window [of "[(''2330'', quiet_then_spike), (''2317'', [(''2024-02-01'', 3)])]"
          "''2330''" quiet_then_spike "2.5"]
        statistics_window [of "[(''2330'', quiet_then_spike), (''2317'', [(''2024-02-01'', 3)])]"
          "''2317''" "[(''2024-02-01'', 3)]" "2.5"]
  by (auto simp: quiet_then_spike_length)

subsection \<open>C6: a zero standard deviation gives a zero z-score\<close>

text \<open>
  C6 (as amended). For every security whose statistics entry has the standard deviation
  exactly 0, the z-score is 0 and nothing is divided; the anomaly flag is the comparison
  \<open>0 \<ge> sigma_threshold\<close>, so it is false for every positive threshold (the configured one
  is 2.5) and true for a threshold of zero or below.
\<close>

theorem zero_std_zero_z:
  assumes "stock_statistic date_values sigma = Some st" and "st_std st = 0"
  shows "st_z st = 0 \<and> (st_anomaly st \<longleftrightarrow> sigma \<le> 0)"
  using assms by (auto simp: stock_statistic_def Let_def split: if_splits)

theorem zero_std_zero_z_witness:
  "stock_statistic quiet_then_spike 2.5 =
     Some \<lparr>st_mean = 5, st_std = 0, st_latest = 900, st_z = 0, st_anomaly = False\<rparr> \<and>
   st_z \<lparr>st_mean = 5, st_std = 0, st_latest = 900, st_z = 0, st_anomaly = False\<rparr> = 0 \<and>
   \<not> st_anomaly \<lparr>st_mean = 5, st_std = 0, st_latest = 900, st_z = 0, st_anomaly = False\<rparr>"
  (is "?run = Some ?st \<and> _")
proof -
  have run: "?run = Some ?st"
    using quiet_then_spike_statistic [of "2.5"] by simp
  have std: "st_std ?st = 0" by simp
  from zero_std_zero_z [OF run std] run show ?thesis by simp
qed

text \<open>
  C6 as stated fails for a threshold that is not positive: with the threshold 0 the
  constant window gives the z-score 0 and the flag \<open>0 \<ge> 0\<close>, which is true.
\<close>

theorem zero_std_flagged_at_zero_threshold:
  "stock_statistic quiet_then_spike 0 =
     Some \<lparr>st_mean = 5, st_std = 0, st_latest = 900, st_z = 0, st_anomaly = True\<rparr>"
  using quiet_then_spike_statistic [of 0] by simp


section \<open>Properties of the history accumulation\<close>

lemma history_of_update:
  "history_of (AList.update k v d) c = (if c = k then v else history_of d c)"
  by (simp add: history_of_def update_conv')

lemma record_row_history:
  "history_of (snd (record_row a date row st)) c =
     history_of (snd st) c @
     (if normalize_stock_code (r_code row) = c \<and>
         is_allowed_stock (normalize_stock_code (r_code row)) a
      then [(date, r_lots row)] else [])"
proof (cases "is_allowed_stock (normalize_stock_code (r_code row)) a")
  case False
  then show ?thesis by (simp add: record_row_def)
next
  case True
  then have "snd (record_row a date row st) =
      AList.update (normalize_stock_code (r_code row))
        (history_of (snd st) (normalize_stock_code (r_code row)) @ [(date, r_lots row)]) (snd st)"
    by (simp add: record_row_def Let_def history_of_def)
  with True show ?thesis by (simp add: history_of_update)
qed

lemma record_rows_history:
  "history_of (snd (foldl (\<lambda>st row. record_row a date row st) st df)) c =
     history_of (snd st) c @
     map (\<lambda>row. (date, r_lots row))
       (filter (\<lambda>row. normalize_stock_code (r_code row) = c \<and>
                       is_allowed_stock (normalize_stock_code (r_code row)) a) df)"
  by (induction df arbitrary: st) (simp_all add: record_row_history)

lemma record_row_day:
  "fst (record_row a date row st) =
     (if is_allowed_stock (normalize_stock_code (r_code row)) a
      then AList.update (normalize_stock_code (r_code row)) (r_lots row) (fst st) else fst st)"
  by (simp add: record_row_def Let_def)

lemma record_rows_day:
  "fst st = fst st' \<Longrightarrow>
   fst (foldl (\<lambda>st row. record_row a date row st) st df) =
   fst (foldl (\<lambda>st row. record_row a date row st) st' df)"
proof (induction df arbitrary: st st')
  case Nil
  then show ?case by simp
next
  case (Cons row df)
  have "fst (record_row a date row st) = fst (record_row a date row st')"
    using Cons.prems by (simp add: record_row_day)
  then have "fst (foldl (\<lambda>st row. record_row a date row st) (record_row a date row st) df) =
             fst (foldl (\<lambda>st row. record_row a date row st) (record_row a date row st') df)"
    by (rule Cons.IH)
  then show ?case by simp
qed

lemma rank_day_history: "all_historical_data (rank_day nb ns date df acc) = all_historical_data acc"
  by (simp add: rank_day_def Let_def)

lemma rank_day_all: "daily_all_stocks (rank_day nb ns date df acc) = daily_all_stocks acc"
  by (simp add: rank_day_def Let_def)

lemma process_file_history:
  "history_of (all_historical_data (process_file lf a nb ns f acc)) c =
     history_of (all_historical_data acc) c @ file_entries a f c"
  by (simp add: process_file_def Let_def rank_day_history record_rows_history file_entries_def)

lemma process_file_all:
  "daily_all_stocks (process_file lf a nb ns f acc) =
     AList.update (file_date f) (day_entries a f) (daily_all_stocks acc)"
  using record_rows_day[of "([], all_historical_data acc)" "([], [])" a "file_date f"
          "prepare_rows a (file_rows f)"]
  by (simp add: process_file_def Let_def rank_day_all day_entries_def)

lemma process_files_history:
  "history_of (all_historical_data (foldl (\<lambda>acc f. process_file lf a nb ns f acc) acc fs)) c =
     history_of (all_historical_data acc) c @ concat (map (\<lambda>f. file_entries a f c) fs)"
  by (induction fs arbitrary: acc) (simp_all add: process_file_history)

lemma process_files_all:
  "map_of (daily_all_stocks (foldl (\<lambda>acc f. process_file lf a nb ns f acc) acc fs)) =
     map_of (daily_all_stocks acc) ++ map_of (rev (map (\<lambda>f. (file_date f, day_entries a f)) fs))"
proof (induction fs arbitrary: acc)
  case Nil
  then show ?case by simp
next
  case (Cons f fs)
  have step: "map_of (daily_all_stocks (process_file lf a nb ns f acc)) =
          (map_of (daily_all_stocks acc))(file_date f \<mapsto> day_entries a f)"
    by (simp add: process_file_all update_conv')
  have "map_of (daily_all_stocks
          (foldl (\<lambda>acc f. process_file lf a nb ns f acc) (process_file lf a nb ns f acc) fs)) =
        map_of (daily_all_stocks (process_file lf a nb ns f acc)) ++
        map_of (rev (map (\<lambda>f. (file_date f, day_entries a f)) fs))"
    by (rule Cons.IH)
  also have "\<dots> = (map_of (daily_all_stocks acc))(file_date f \<mapsto> day_entries a f) ++
        map_of (rev (map (\<lambda>f. (file_date f, day_entries a f)) fs))"
    by (simp only: step)
  also have "\<dots> = map_of (daily_all_stocks acc) ++
        map_of (rev (map (\<lambda>f. (file_date f, day_entries a f)) fs) @
                [(file_date f, day_entries a f)])"
    by (simp add: map_add_assoc[symmetric])
  finally show ?case by simp
qed

lemma map_add_twice: "(m ++ n) ++ n = m ++ n"
  by (rule ext) (simp add: map_add_def split: option.splits)

subsection \<open>C7: the histories are append-only\<close>

text \<open>
  C7 (as amended). The history of a security is append-only and is not deduplicated: after
  a run it holds, file by file in the order of ingestion, one pair of date and lots for
  every ingested row of the security. Feeding the same files twice therefore yields every
  history followed by a copy of itself, each date twice. Only the per-day dictionary of
  codes and lots is idempotent under a second ingestion: there the assignment by key makes
  the last value win.
\<close>

theorem history_is_append_only:
  "history_of (all_historical_data (process_shares_files fs a nb ns)) c =
     concat (map (\<lambda>f. file_entries a f c) fs) \<and>
   history_of (all_historical_data (process_shares_files (fs @ fs) a nb ns)) c =
     history_of (all_historical_data (process_shares_files fs a nb ns)) c @
     history_of (all_historical_data (process_shares_files fs a nb ns)) c \<and>
   map_of (daily_all_stocks (process_shares_files (fs @ fs) a nb ns)) =
     map_of (daily_all_stocks (process_shares_files fs a nb ns))"
proof (intro conjI)
  have e: "history_of (all_historical_data empty_accumulator) c = []"
    by (simp add: empty_accumulator_def history_of_def)
  show 1: "history_of (all_historical_data (process_shares_files fs a nb ns)) c =
     concat (map (\<lambda>f. file_entries a f c) fs)"
    by (simp only: process_shares_files_def process_files_history e append_Nil)
  have "history_of (all_historical_data (process_shares_files (fs @ fs) a nb ns)) c =
     concat (map (\<lambda>f. file_entries a f c) (fs @ fs))"
    by (simp only: process_shares_files_def process_files_history e append_Nil)
  with 1 show "history_of (all_historical_data (process_shares_files (fs @ fs) a nb ns)) c =
     history_of (all_historical_data (process_shares_files fs a nb ns)) c @
     history_of (all_historical_data (process_shares_files fs a nb ns)) c"
    by simp
  have d: "map_of (daily_all_stocks empty_accumulator) = Map.empty"
    by (simp add: empty_accumulator_def)
  have "map_of (daily_all_stocks (process_shares_files (fs @ fs) a nb ns)) =
        map_of (rev (map (\<lambda>f. (file_date f, day_entries a f)) (fs @ fs)))"
    by (simp only: process_shares_files_def process_files_all d empty_map_add)
  also have "\<dots> = map_of (rev (map (\<lambda>f. (file_date f, day_entries a f)) fs)) ++
                   map_of (rev (map (\<lambda>f. (file_date f, day_entries a f)) fs))"
    by (simp add: map_of_append)
  also have "\<dots> = map_of (rev (map (\<lambda>f. (file_date f, day_entries a f)) fs))"
    using map_add_twice[of Map.empty] by simp
  also have "\<dots> = map_of (daily_all_stocks (process_shares_files fs a nb ns))"
    by (simp only: process_shares_files_def process_files_all d empty_map_add)
  finally show "map_of (daily_all_stocks (process_shares_files (fs @ fs) a nb ns)) =
     map_of (daily_all_stocks (process_shares_files fs a nb ns))" .
qed

text \<open>
  C7 as stated fails: one file with one row of 2330, fed once, gives a history of one
  entry; fed twice, it gives the same date twice.
\<close>

theorem ingest_twice_duplicates_dates:
  "all_historical_data (process_shares_files [single_file] None 100 50) =
     [(''2330'', [(''2024-01-03'', 5)])] \<and>
   all_historical_data (process_shares_files [single_file, single_file] None 100 50) =
     [(''2330'', [(''2024-01-03'', 5), (''2024-01-03'', 5)])]"
  by code_simp


section \<open>Properties of the observable classifier\<close>


subsection \<open>C2: new entries, and the observables among them\<close>




end
